theory Spec2Isabelle
  imports Complex_Main
begin

section \<open>Python values, exceptions and effects\<close>

text \<open>
  The url objects, provider responses and pipeline messages of serapis are JSON-shaped
  Python values. A dict is an association list; a lookup takes the first binding of a key.
\<close>

datatype pyval =
    PNone
  | PBool bool
  | PInt int
  | PStr string
  | PList "pyval list"
  | PDict "(string \<times> pyval) list"

text \<open>The exceptions (subclasses of Exception) that the modelled code can raise or receive.\<close>

datatype error =
    KeyError
  | TypeError
  | IndexError
  | AttributeError
  | UnboundLocalError
  | ValueError
  | ConnectionError
  | Raised string

text \<open>An outbound HTTP call as the source builds it, and the response object it reads.\<close>

record request =
  rmethod :: string
  rurl :: string
  rparams :: "(string \<times> pyval) list"
  rauth :: "(string \<times> string) option"
  rheaders :: "(string \<times> string) list"

record response =
  status_code :: pyval
  reason :: pyval
  json :: "error + pyval"

datatype level = INFO | ERROR

text \<open>
  What a call does besides returning: logger calls (level, format template, format
  arguments), prints, HTTP calls, scheduling of an asynchronous job (function name and
  arguments), one \<open>time.sleep(.5)\<close>, and the two ways \<open>write_message\<close> persists
  a message.
\<close>

datatype event =
    Log level string "pyval list"
  | Print string "pyval list"
  | Http request
  | Spawn string "pyval list"
  | Sleep
  | S3Put string string pyval
  | FileWrite string string pyval

text \<open>A computation is the trace of its effects and either the raised exception or the result.\<close>

type_synonym 'a io = "event list \<times> (error + 'a)"

definition ret :: "'a \<Rightarrow> 'a io" where
  "ret x = ([], Inr x)"

definition raise :: "error \<Rightarrow> 'a io" where
  "raise e = ([], Inl e)"

definition emit :: "event \<Rightarrow> unit io" where
  "emit ev = ([ev], Inr ())"

definition lift :: "error + 'a \<Rightarrow> 'a io" where
  "lift r = ([], r)"

definition bind :: "'a io \<Rightarrow> ('a \<Rightarrow> 'b io) \<Rightarrow> 'b io" where
  "bind m f =
     (case m of
        (es, Inl e) \<Rightarrow> (es, Inl e)
      | (es, Inr x) \<Rightarrow> (case f x of (es', r) \<Rightarrow> (es @ es', r)))"

definition seq :: "unit io \<Rightarrow> 'b io \<Rightarrow> 'b io" where
  "seq m k = bind m (\<lambda>_. k)"

subsection \<open>Operations of Python values\<close>

text \<open>Truth value of a value, as \<open>if x\<close>, \<open>x or y\<close> and \<open>not x\<close> take it.\<close>

fun py_truth :: "pyval \<Rightarrow> bool" where
  "py_truth PNone = False"
| "py_truth (PBool b) = b"
| "py_truth (PInt i) = (i \<noteq> 0)"
| "py_truth (PStr s) = (s \<noteq> [])"
| "py_truth (PList xs) = (xs \<noteq> [])"
| "py_truth (PDict kvs) = (kvs \<noteq> [])"

text \<open>\<open>obj[key]\<close> with a string key: only a dict accepts it, a missing key raises KeyError.\<close>

fun py_getitem :: "pyval \<Rightarrow> string \<Rightarrow> error + pyval" where
  "py_getitem (PDict kvs) k = (case map_of kvs k of None \<Rightarrow> Inl KeyError | Some v \<Rightarrow> Inr v)"
| "py_getitem _ k = Inl TypeError"


fun dict_set :: "string \<Rightarrow> 'v \<Rightarrow> (string \<times> 'v) list \<Rightarrow> (string \<times> 'v) list" where
  "dict_set k v [] = [(k, v)]"
| "dict_set k v ((k', v') # kvs) =
     (if k = k' then (k, v) # kvs else (k', v') # dict_set k v kvs)"

text \<open>\<open>obj[key] = v\<close> with a string key.\<close>

fun py_setitem :: "pyval \<Rightarrow> string \<Rightarrow> pyval \<Rightarrow> error + pyval" where
  "py_setitem (PDict kvs) k v = Inr (PDict (dict_set k v kvs))"
| "py_setitem _ k v = Inl TypeError"

text \<open>The elements a \<open>for\<close> loop (or \<open>enumerate\<close>) visits: a dict yields its keys.\<close>

fun py_iter :: "pyval \<Rightarrow> error + pyval list" where
  "py_iter (PList xs) = Inr xs"
| "py_iter (PStr s) = Inr (map (\<lambda>c. PStr [c]) s)"
| "py_iter (PDict kvs) = Inr (map (\<lambda>kv. PStr (fst kv)) kvs)"
| "py_iter _ = Inl TypeError"

text \<open>\<open>obj.get(key, default)\<close>: a method of dicts only.\<close>

fun py_get :: "pyval \<Rightarrow> string \<Rightarrow> pyval \<Rightarrow> error + pyval" where
  "py_get (PDict kvs) k d = (case map_of kvs k of None \<Rightarrow> Inr d | Some v \<Rightarrow> Inr v)"
| "py_get _ k d = Inl AttributeError"

text \<open>\<open>d in url\<close> for a string \<open>d\<close>: substring of a string, element of a list, key of a dict.\<close>

fun is_substring :: "string \<Rightarrow> string \<Rightarrow> bool" where
  "is_substring d [] = (d = [])"
| "is_substring d (c # cs) = (take (length d) (c # cs) = d \<or> is_substring d cs)"

fun py_contains :: "pyval \<Rightarrow> string \<Rightarrow> error + bool" where
  "py_contains (PStr u) d = Inr (is_substring d u)"
| "py_contains (PList xs) d = Inr (PStr d \<in> set xs)"
| "py_contains (PDict kvs) d = Inr (d \<in> fst ` set kvs)"
| "py_contains _ d = Inl TypeError"

definition endswith :: "string \<Rightarrow> string \<Rightarrow> bool" where
  "endswith s e = (length e \<le> length s \<and> drop (length s - length e) s = e)"

section \<open>Configuration and external collaborators\<close>

text \<open>The fields of \<open>serapis.config.config\<close> that the two modules read.\<close>

record config =
  search_engine :: string
  max_search_duration :: rat
  exclude_domains :: "string list"
  duckduckgo_sources :: "string list"
  google_key :: pyval
  google_cse :: pyval
  bing_key :: string
  diffbot_token :: pyval
  save_messages :: bool
  bucket :: string
  local_s3 :: string

text \<open>
  The collaborators outside the two modules, taken as parameters: the HTTP client
  (\<open>requests\<close>), \<open>requests.utils.quote\<close>, \<open>dateutil\<close>'s parser followed by
  \<open>isoformat\<close>, the language detector, the path component that \<open>urlparse.urlparse\<close>
  gives for a string, \<open>str\<close> of a value that is not a string, \<open>traceback.format_exc\<close>,
  \<open>PageRequest(url, term).structured\<close>, \<open>PageRequest(url, term, run=False)\<close> followed by
  \<open>extract_sentences(text)\<close> (giving its sentences and the list of its variants),
  \<open>merge_dict\<close>, \<open>now\<close>, the annotators that \<open>detect\<close> calls and \<open>save_all\<close>.
  The last four fields are the scheduler: the truth value of a job handle as a function of
  its completion flag, and for every job the poll of its joiner at which it is first seen
  finished (\<open>None\<close>: never).
\<close>

record world =
  http :: "request \<Rightarrow> error + response"
  url_quote :: "string \<Rightarrow> string"
  isoformat_date :: "pyval \<Rightarrow> error + pyval"
  is_english :: "pyval \<Rightarrow> bool"
  url_path :: "string \<Rightarrow> string"
  str_of :: "pyval \<Rightarrow> string"
  traceback :: "error \<Rightarrow> pyval"
  page_structured :: "pyval \<Rightarrow> pyval \<Rightarrow> error + pyval"
  page_sentences :: "pyval \<Rightarrow> pyval \<Rightarrow> pyval \<Rightarrow> error + (pyval \<times> pyval)"
  merge_dict :: "pyval \<Rightarrow> pyval \<Rightarrow> error + pyval"
  now :: pyval
  batch_tag_sentences :: "pyval \<Rightarrow> error + pyval"
  readability_score :: "pyval \<Rightarrow> error + pyval"
  match_wordnik_rules :: "pyval \<Rightarrow> error + pyval"
  save_all :: "pyval \<Rightarrow> error + unit"
  handle_truth :: "bool \<Rightarrow> bool"
  ddg_finish :: "nat option"
  search_finish :: "nat option"
  extract_finish :: "nat \<Rightarrow> nat option"

definition sbind :: "error + 'a \<Rightarrow> ('a \<Rightarrow> error + 'b) \<Rightarrow> error + 'b" where
  "sbind r f = (case r of Inl e \<Rightarrow> Inl e | Inr x \<Rightarrow> f x)"

text \<open>\<open>"{}".format(v)\<close> for one value.\<close>

definition py_str :: "world \<Rightarrow> pyval \<Rightarrow> string" where
  "py_str w v = (case v of PStr s \<Rightarrow> s | _ \<Rightarrow> str_of w v)"

definition apo :: string where
  "apo = [CHR 0x27]"

section \<open>search.py\<close>

subsection \<open>Job handles\<close>

text \<open>
  Modelled from the spec: the class \<open>AsynchronousRequest\<close> of \<open>serapis.util\<close> is not
  among the sources. A handle has a completion flag that becomes true once and a value
  that holds the function's result from then on, and stays \<open>None\<close> when the function
  raised (section 4.1 of the specification). \<open>handle_at fin outcome t\<close> is the handle
  as the joiner reads it at its poll number \<open>t\<close>.
\<close>

record 'a job =
  is_done :: bool
  jvalue :: "'a option"

definition finished_by :: "nat option \<Rightarrow> nat \<Rightarrow> bool" where
  "finished_by fin t = (case fin of None \<Rightarrow> False | Some f \<Rightarrow> f \<le> t)"

definition job_result :: "error + 'a \<Rightarrow> 'a option" where
  "job_result outcome = (case outcome of Inl e \<Rightarrow> None | Inr v \<Rightarrow> Some v)"

definition handle_at :: "nat option \<Rightarrow> error + 'a \<Rightarrow> nat \<Rightarrow> 'a job" where
  "handle_at fin outcome t =
     (if finished_by fin t
      then \<lparr>is_done = True, jvalue = job_result outcome\<rparr>
      else \<lparr>is_done = False, jvalue = None\<rparr>)"

subsection \<open>qualify_search_result\<close>

fun excluded :: "string list \<Rightarrow> pyval \<Rightarrow> error + bool" where
  "excluded [] url = Inr False"
| "excluded (domain # domains) url =
     (case py_contains url domain of
        Inl e \<Rightarrow> Inl e
      | Inr hit \<Rightarrow> if hit then Inr True else excluded domains url)"

text \<open>\<open>urlparse.urlparse(url).path\<close>; the parser needs a string.\<close>

fun urlparse_path :: "world \<Rightarrow> pyval \<Rightarrow> error + string" where
  "urlparse_path w (PStr u) = Inr (url_path w u)"
| "urlparse_path w (PList xs) = Inl TypeError"
| "urlparse_path w (PDict kvs) = Inl TypeError"
| "urlparse_path w _ = Inl AttributeError"

definition qualify_search_result :: "config \<Rightarrow> world \<Rightarrow> pyval \<Rightarrow> pyval \<Rightarrow> pyval \<Rightarrow> bool io" where
  "qualify_search_result cfg w url text date =
     bind (lift (excluded (exclude_domains cfg) url)) (\<lambda>hit.
       if hit then ret False
       else if py_truth text \<and> \<not> is_english w text then
         seq (emit (Log INFO (''Excluded non-english result '{}'' @ apo) [text])) (ret False)
       else
         bind (lift (urlparse_path w url)) (\<lambda>path.
           if endswith path ''.pdf'' then ret False else ret True))"

subsection \<open>Provider adapters\<close>

definition google_request :: "config \<Rightarrow> pyval \<Rightarrow> request" where
  "google_request cfg term =
     \<lparr>rmethod = ''GET'', rurl = ''https://www.googleapis.com/customsearch/v1'',
      rparams = [(''key'', google_key cfg), (''cx'', google_cse cfg), (''q'', term),
                 (''lr'', PStr ''lang_en'')],
      rauth = None, rheaders = []\<rparr>"

fun google_results :: "config \<Rightarrow> world \<Rightarrow> pyval list \<Rightarrow> pyval list io" where
  "google_results cfg w [] = ret []"
| "google_results cfg w (search_result # rest) =
     bind (lift (py_getitem search_result ''link'')) (\<lambda>link.
     bind (lift (py_getitem search_result ''snippet'')) (\<lambda>snippet.
     bind (qualify_search_result cfg w link snippet PNone) (\<lambda>ok.
       if ok then
         bind (lift (py_getitem search_result ''title'')) (\<lambda>title.
         bind (google_results cfg w rest) (\<lambda>result.
           ret (PDict [(''url'', link), (''search_provider'', PStr ''google''),
                       (''date'', PNone), (''summary'', snippet), (''title'', title)]
                # result)))
       else google_results cfg w rest)))"

text \<open>
  When \<open>requests.get\<close> itself raises, the handler reads \<open>r.status_code\<close> of a local
  variable that was never bound: the handler raises UnboundLocalError.
\<close>

definition search_google :: "config \<Rightarrow> world \<Rightarrow> pyval \<Rightarrow> pyval list io" where
  "search_google cfg w term =
     seq (emit (Http (google_request cfg term)))
       (case http w (google_request cfg term) of
          Inl e \<Rightarrow> raise UnboundLocalError
        | Inr r \<Rightarrow>
            (case sbind (json r) (\<lambda>body. py_get body ''items'' (PList [])) of
               Inl e \<Rightarrow>
                 seq (emit (Log ERROR ''GOOGLE search failed for '{}' (Status: {} / {})''
                              [term, status_code r, reason r]))
                   (ret [])
             | Inr data \<Rightarrow>
                 bind (lift (py_iter data)) (\<lambda>items.
                 bind (google_results cfg w items) (\<lambda>result.
                 seq (emit (Log INFO ''Searching Google for '{}' returned {} results''
                              [term, PInt (int (length result))]))
                   (ret result)))))"

definition bing_request :: "config \<Rightarrow> world \<Rightarrow> pyval \<Rightarrow> request" where
  "bing_request cfg w term =
     \<lparr>rmethod = ''POST'', rurl = ''https://api.datamarket.azure.com/Bing/Search/Web'',
      rparams = [(''Query'', PStr (apo @ py_str w term @ apo)), (''$format'', PStr ''JSON''),
                 (''Market'', PStr (apo @ ''en-US'' @ apo)),
                 (''Options'', PStr (apo @ ''DisableLocationDetection'' @ apo)),
                 (''Adult'', PStr (apo @ ''Moderate'' @ apo))],
      rauth = Some (bing_key cfg, bing_key cfg),
      rheaders = [(''User-Agent'', ''Mozilla/4.0 (compatible; MSIE 7.0; Windows NT 5.1; Trident/4.0; FDM; .NET CLR 2.0.50727; InfoPath.2; .NET CLR 1.1.4322)'')]\<rparr>"

fun bing_results :: "config \<Rightarrow> world \<Rightarrow> pyval list \<Rightarrow> pyval list io" where
  "bing_results cfg w [] = ret []"
| "bing_results cfg w (search_result # rest) =
     bind (lift (py_getitem search_result ''Url'')) (\<lambda>link.
     bind (lift (py_getitem search_result ''Description'')) (\<lambda>description.
     bind (qualify_search_result cfg w link description PNone) (\<lambda>ok.
       if ok then
         bind (lift (py_getitem search_result ''Title'')) (\<lambda>title.
         bind (bing_results cfg w rest) (\<lambda>result.
           ret (PDict [(''url'', link), (''search_provider'', PStr ''bing''),
                       (''date'', PNone), (''summary'', description), (''title'', title)]
                # result)))
       else bing_results cfg w rest)))"

definition search_bing :: "config \<Rightarrow> world \<Rightarrow> pyval \<Rightarrow> pyval list io" where
  "search_bing cfg w term =
     seq (emit (Http (bing_request cfg w term)))
       (case http w (bing_request cfg w term) of
          Inl e \<Rightarrow> raise UnboundLocalError
        | Inr r \<Rightarrow>
            (case sbind (json r) (\<lambda>body.
                    sbind (py_get body ''d'' (PDict [])) (\<lambda>d. py_get d ''results'' (PList []))) of
               Inl e \<Rightarrow>
                 seq (emit (Log ERROR ''BING search failed for '{}' (Status: {} / {})''
                              [term, status_code r, reason r]))
                   (ret [])
             | Inr data \<Rightarrow>
                 bind (lift (py_iter data)) (\<lambda>items.
                 bind (bing_results cfg w items) (\<lambda>result.
                 seq (emit (Log INFO ''Searching Bing for '{}' returned {} results (out of {})''
                              [term, PInt (int (length result)), PInt (int (length items))]))
                   (ret result)))))"




definition duckduckgo_request :: "world \<Rightarrow> pyval \<Rightarrow> request" where
  "duckduckgo_request w term =
     \<lparr>rmethod = ''GET'',
      rurl = ''http://api.duckduckgo.com/?q='' @ py_str w term @ ''&format=json'',
      rparams = [], rauth = None, rheaders = []\<rparr>"

text \<open>The result that \<open>search_duckduckgo\<close> appends for the Abstract and for the Definition.\<close>

definition ddg_abstract :: "world \<Rightarrow> pyval \<Rightarrow> pyval \<Rightarrow> error + pyval" where
  "ddg_abstract w term req =
     sbind (py_getitem req ''AbstractURL'') (\<lambda>url0.
     sbind (py_getitem req ''Abstract'') (\<lambda>abstract0.
     sbind (page_sentences w url0 term abstract0) (\<lambda>pr.
     sbind (py_getitem req ''Heading'') (\<lambda>heading.
     sbind (py_getitem req ''AbstractURL'') (\<lambda>url.
     sbind (py_getitem req ''AbstractSource'') (\<lambda>source.
     sbind (py_getitem req ''Abstract'') (\<lambda>abstract.
       Inr (PDict [(''title'', heading), (''url'', url),
                   (''search_provider'', PStr ''duckduckgo''), (''author'', PNone),
                   (''date'', PNone), (''source'', source), (''doc'', abstract),
                   (''sentences'', fst pr), (''variants'', snd pr)]))))))))"

definition ddg_definition :: "world \<Rightarrow> pyval \<Rightarrow> pyval \<Rightarrow> error + pyval" where
  "ddg_definition w term req =
     sbind (py_getitem req ''DefinitionURL'') (\<lambda>url0.
     sbind (py_getitem req ''Definition'') (\<lambda>definition0.
     sbind (page_sentences w url0 term definition0) (\<lambda>pr.
     sbind (py_getitem req ''Heading'') (\<lambda>heading.
     sbind (py_getitem req ''DefinitionURL'') (\<lambda>url.
     sbind (py_getitem req ''DefinitionSource'') (\<lambda>source.
     sbind (py_getitem req ''Definition'') (\<lambda>definition1.
       Inr (PDict [(''title'', heading), (''url'', url), (''source'', source),
                   (''search_provider'', PStr ''duckduckgo''), (''author'', PNone),
                   (''date'', PNone), (''doc'', definition1),
                   (''sentences'', fst pr), (''variants'', snd pr)]))))))))"

text \<open>\<open>x not in config.duckduckgo_sources\<close>: only a string equals a configured source.\<close>

definition in_sources :: "config \<Rightarrow> pyval \<Rightarrow> bool" where
  "in_sources cfg v = (case v of PStr s \<Rightarrow> s \<in> set (duckduckgo_sources cfg) | _ \<Rightarrow> False)"

definition search_duckduckgo :: "config \<Rightarrow> world \<Rightarrow> pyval \<Rightarrow> pyval list io" where
  "search_duckduckgo cfg w term =
     seq (emit (Http (duckduckgo_request w term)))
       (case sbind (http w (duckduckgo_request w term)) json of
          Inl e \<Rightarrow> ret []
        | Inr req \<Rightarrow>
            bind (lift (py_getitem req ''AbstractSource'')) (\<lambda>source.
              if \<not> in_sources cfg source then ret []
              else
                bind (lift (py_get req ''Abstract'' PNone)) (\<lambda>a.
                bind (lift (if py_truth a then sbind (ddg_abstract w term req) (\<lambda>x. Inr [x])
                            else Inr [])) (\<lambda>result1.
                bind (lift (py_get req ''Definition'' PNone)) (\<lambda>d.
                bind (lift (if py_truth d
                            then sbind (ddg_definition w term req) (\<lambda>x. Inr (result1 @ [x]))
                            else Inr result1)) (\<lambda>result.
                seq (emit (Log INFO ''Searching DuckDuckGo for '{}' returned {} results''
                             [term, PInt (int (length result))]))
                  (ret result)))))))"

subsection \<open>extract_wrapper and search_and_parse\<close>

text \<open>
  The \<open>try\<close> covers \<open>url_object['url']\<close> and the page request; the handler reads
  \<open>url_object['url']\<close> again for its log line; \<open>merge_dict\<close> is outside the \<open>try\<close>.
\<close>

definition extract_wrapper :: "world \<Rightarrow> pyval \<Rightarrow> pyval \<Rightarrow> pyval io" where
  "extract_wrapper w url_object term =
     (case sbind (py_getitem url_object ''url'') (\<lambda>url. page_structured w url term) of
        Inl e \<Rightarrow>
          bind (lift (py_getitem url_object ''url'')) (\<lambda>url.
          seq (emit (Log ERROR ''Failed to get page {} -- {}'' [url, traceback w e]))
            (ret url_object))
      | Inr result \<Rightarrow> lift (merge_dict w url_object result))"

text \<open>
  The polling loop of \<open>search_and_parse\<close>. \<open>all_jobs t\<close> is \<open>all(jobs)\<close> at poll
  \<open>t\<close>; \<open>polls\<close> counts the sleeps done and \<open>time_waited\<close> is the source's variable.
  Multiples of one half are exact in binary floating point, so the model adds them as
  rationals. The loop returns the poll at which it stops and the time it tracked.
\<close>

function wait_loop :: "(nat \<Rightarrow> bool) \<Rightarrow> rat \<Rightarrow> nat \<Rightarrow> rat \<Rightarrow> nat \<times> rat" where
  "wait_loop all_jobs max_duration polls time_waited =
     (if \<not> all_jobs polls \<and> time_waited < max_duration
      then wait_loop all_jobs max_duration (Suc polls) (time_waited + 1/2)
      else (polls, time_waited))"
  by pat_completeness auto
termination
proof (relation "measure (\<lambda>(a, m, p, tw). nat \<lceil>2 * (m - tw)\<rceil>)")
  show "wf (measure (\<lambda>(a, m, p, tw). nat \<lceil>2 * (m - tw)\<rceil>))" by simp
next
  fix all_jobs :: "nat \<Rightarrow> bool" and max_duration time_waited :: rat and polls :: nat
  assume "\<not> all_jobs polls \<and> time_waited < max_duration"
  then have pos: "0 < 2 * (max_duration - time_waited)" by simp
  have eq: "2 * (max_duration - (time_waited + 1/2)) = 2 * (max_duration - time_waited) - 1"
    by (simp add: algebra_simps)
  have "\<lceil>2 * (max_duration - (time_waited + 1/2))\<rceil> = \<lceil>2 * (max_duration - time_waited)\<rceil> - 1"
    by (simp only: eq ceiling_diff_one)
  moreover from pos have "0 < \<lceil>2 * (max_duration - time_waited)\<rceil>" by simp
  ultimately show "((all_jobs, max_duration, Suc polls, time_waited + 1/2),
                    (all_jobs, max_duration, polls, time_waited))
                   \<in> measure (\<lambda>(a, m, p, tw). nat \<lceil>2 * (m - tw)\<rceil>)"
    by simp
qed

declare wait_loop.simps [simp del]

text \<open>The jobs that \<open>search_and_parse\<close> schedules, one per raw result, in order.\<close>

definition extract_jobs :: "world \<Rightarrow> pyval list \<Rightarrow> pyval \<Rightarrow> (nat \<Rightarrow> pyval job) list" where
  "extract_jobs w search_result term =
     map (\<lambda>i. handle_at (extract_finish w i) (snd (extract_wrapper w (search_result ! i) term)))
       [0..<length search_result]"

text \<open>\<open>job.value\<close> as an element of the result list.\<close>

definition value_of :: "pyval job \<Rightarrow> pyval" where
  "value_of job = (case jvalue job of None \<Rightarrow> PNone | Some v \<Rightarrow> v)"

text \<open>
  \<open>time_waited = 0\<close> followed by the loop \<open>while not all(jobs) and time_waited <
  config.max_search_duration\<close>: \<open>all\<close> takes the truth value of every handle.
\<close>

definition join_jobs :: "config \<Rightarrow> world \<Rightarrow> (nat \<Rightarrow> pyval job) list \<Rightarrow> nat \<times> rat" where
  "join_jobs cfg w jobs =
     wait_loop (\<lambda>t. list_all (\<lambda>job. handle_truth w (is_done (job t))) jobs)
       (max_search_duration cfg) 0 0"

definition search_and_parse ::
    "config \<Rightarrow> world \<Rightarrow> (pyval \<Rightarrow> pyval list io) \<Rightarrow> pyval \<Rightarrow> pyval list io" where
  "search_and_parse cfg w search_func term =
     bind (search_func term) (\<lambda>search_result.
       let jobs = extract_jobs w search_result term;
           stop = join_jobs cfg w jobs;
           result = map (\<lambda>job. value_of (job (fst stop)))
                      (filter (\<lambda>job. is_done (job (fst stop))) jobs)
       in (map (\<lambda>url_object. Spawn ''extract_wrapper'' [url_object, term]) search_result
           @ replicate (fst stop) Sleep
           @ [Log INFO ''Parsing URLs for '{}' yielded {} results, {} urls lost''
                [term, PInt (int (length result)),
                 PInt (int (length search_result) - int (length result))]],
           Inr result))"

subsection \<open>search_all\<close>

text \<open>
  The outer join has no deadline: it polls until both jobs are done. When one of them
  never finishes the loop does not return, which is the value \<open>None\<close>.
\<close>

partial_function (option) join_loop :: "(nat \<Rightarrow> bool) \<Rightarrow> nat \<Rightarrow> nat option" where
  "join_loop both_done polls =
     (if \<not> both_done polls then join_loop both_done (Suc polls) else Some polls)"

declare join_loop.simps [code]

text \<open>\<open>job.value or []\<close>\<close>

definition or_empty :: "pyval list option \<Rightarrow> pyval list" where
  "or_empty v = (case v of None \<Rightarrow> [] | Some xs \<Rightarrow> xs)"

definition search_all :: "config \<Rightarrow> world \<Rightarrow> pyval \<Rightarrow> (event list \<times> pyval list) option" where
  "search_all cfg w term =
     (case map_of [(''bing'', search_bing cfg w), (''google'', search_google cfg w)]
             (search_engine cfg) of
        None \<Rightarrow>
          Some ([Log INFO (''Sarching for '{}'' @ apo) [term],
                 Log ERROR ''Invalid search engine '{}' defined in config''
                   [PStr (search_engine cfg)]],
                [])
      | Some engine \<Rightarrow>
          let ddg = handle_at (ddg_finish w) (snd (search_duckduckgo cfg w term));
              search = handle_at (search_finish w) (snd (search_and_parse cfg w engine term))
          in (case join_loop (\<lambda>t. is_done (ddg t) \<and> is_done (search t)) 0 of
                None \<Rightarrow> None
              | Some stop \<Rightarrow>
                  let combined = or_empty (jvalue (ddg stop)) @ or_empty (jvalue (search stop));
                      result = filter py_truth combined
                  in Some ([Log INFO (''Sarching for '{}'' @ apo) [term],
                            Spawn ''search_duckduckgo'' [term],
                            Spawn ''search_and_parse'' [PStr (''search_'' @ search_engine cfg), term]]
                           @ replicate stop Sleep
                           @ [Log INFO ''Searching URLs for '{}' yielded {} results''
                                [term, PInt (int (length result))]],
                           result)))"

section \<open>tasks.py\<close>

text \<open>
  The store accepts every put. A message is serialised when it is written, so the
  trace holds the message as it was at that moment.
\<close>

definition write_message :: "config \<Rightarrow> world \<Rightarrow> string \<Rightarrow> pyval \<Rightarrow> pyval io" where
  "write_message cfg w task message =
     bind (lift (py_getitem message ''hashslug'')) (\<lambda>hashslug.
       let key = task @ '':'' @ py_str w hashslug
       in seq (emit (if save_messages cfg then S3Put (bucket cfg) key message
                     else FileWrite (local_s3 cfg) key message))
            (ret message))"

text \<open>\<open>search\<close> does not return when \<open>search_all\<close> does not.\<close>

definition search :: "config \<Rightarrow> world \<Rightarrow> pyval \<Rightarrow> pyval io option" where
  "search cfg w message =
     (case py_getitem message ''word'' of
        Inl e \<Rightarrow> Some (raise e)
      | Inr word \<Rightarrow>
          (case search_all cfg w word of
             None \<Rightarrow> None
           | Some (es, urls) \<Rightarrow>
               Some (bind (es, Inr ()) (\<lambda>_.
                     bind (lift (py_setitem message ''urls'' (PList urls))) (\<lambda>m1.
                     bind (lift (py_setitem m1 ''crawl_date'' (now w))) (\<lambda>m2.
                       write_message cfg w ''detect'' m2))))))"

text \<open>
  A collaborator that changes its argument in place, given as the function from the
  argument to its new state: only a dict or a list can change.
\<close>

definition in_place :: "(pyval \<Rightarrow> error + pyval) \<Rightarrow> pyval \<Rightarrow> error + pyval" where
  "in_place f x =
     (case f x of
        Inl e \<Rightarrow> Inl e
      | Inr y \<Rightarrow> (case x of PDict _ \<Rightarrow> Inr y | PList _ \<Rightarrow> Inr y | _ \<Rightarrow> Inr x))"












text \<open>The keys and messages that a trace persisted, in order.\<close>

fun put_of :: "event \<Rightarrow> (string \<times> pyval) option" where
  "put_of (S3Put b key message) = Some (key, message)"
| "put_of (FileWrite d key message) = Some (key, message)"
| "put_of _ = None"

definition puts :: "event list \<Rightarrow> (string \<times> pyval) list" where
  "puts es = List.map_filter put_of es"

text \<open>
  The fields of a value are the keys of a dict. \<open>fields_kept X a b\<close>: every field of
  \<open>a\<close> is a field of \<open>b\<close>, with the value it has in \<open>a\<close> unless the field is in
  \<open>X\<close>. The payload of a message is its own fields, the fields of every entry of
  \<open>urls\<close> and the fields of every sentence of an entry: \<open>payload_kept R m m'\<close> says
  that \<open>m'\<close> keeps the fields of \<open>m\<close> (the value of \<open>urls\<close> apart), entry by entry
  the fields of every entry (the value of \<open>sentences\<close> apart), and that the sentences,
  as many as before and in the same positions, are related by \<open>R\<close>.
\<close>

definition keys_of :: "pyval \<Rightarrow> string set" where
  "keys_of v = (case v of PDict kvs \<Rightarrow> fst ` set kvs | _ \<Rightarrow> {})"

definition fields_kept :: "string set \<Rightarrow> pyval \<Rightarrow> pyval \<Rightarrow> bool" where
  "fields_kept X a b =
     (keys_of a \<subseteq> keys_of b \<and> (\<forall>k \<in> keys_of a - X. py_getitem b k = py_getitem a k))"












section \<open>A concrete configuration and world\<close>

text \<open>
  One configuration and one world on which the theorems below are evaluated: every HTTP
  call fails at the network, every page request raises, and of the enrichment jobs the
  first three never finish.
\<close>

definition cfg0 :: config where
  "cfg0 = \<lparr>search_engine = ''google'', max_search_duration = 2,
           exclude_domains = [''pinterest.com''], duckduckgo_sources = [''Wikipedia''],
           google_key = PStr ''k'', google_cse = PStr ''cx'', bing_key = ''b'',
           diffbot_token = PStr ''t'', save_messages = False, bucket = ''bucket'',
           local_s3 = ''local''\<rparr>"

definition w0 :: world where
  "w0 = \<lparr>http = (\<lambda>r. Inl ConnectionError), url_quote = (\<lambda>s. s),
          isoformat_date = (\<lambda>d. Inr d), is_english = (\<lambda>t. t \<noteq> PStr ''hola''),
          url_path = (\<lambda>u. drop 18 u), str_of = (\<lambda>v. ''?''),
          traceback = (\<lambda>e. PStr ''Traceback''),
          page_structured = (\<lambda>u t. Inl (Raised ''timeout'')),
          page_sentences = (\<lambda>u t x. Inr (PList [], PList [])),
          merge_dict = (\<lambda>a b. Inr a), now = PStr ''2015-11-20'',
          batch_tag_sentences = Inr, readability_score = Inr,
          match_wordnik_rules = (\<lambda>s. Inr (PList [])), save_all = (\<lambda>m. Inr ()),
          handle_truth = (\<lambda>d. d), ddg_finish = Some 1, search_finish = Some 2,
          extract_finish = (\<lambda>i. if i < 3 then None else Some 1)\<rparr>"

text \<open>
  Worlds whose HTTP calls answer: \<open>w1\<close> with a DuckDuckGo instant answer from an
  allowed source and two Google items, \<open>w2\<close> with a body that is not JSON, \<open>w3\<close> with
  an instant answer whose source is not allowed.
\<close>

definition ok_response :: "error + pyval \<Rightarrow> response" where
  "ok_response body = \<lparr>status_code = PInt 200, reason = PStr ''OK'', json = body\<rparr>"

definition ddg_body :: "string \<Rightarrow> pyval" where
  "ddg_body source =
     PDict [(''Heading'', PStr ''Procrastination''), (''AbstractSource'', PStr source),
            (''Abstract'', PStr ''Procrastination is the avoidance of doing a task.''),
            (''AbstractURL'', PStr ''https://en.wikipedia.org/wiki/Procrastination''),
            (''Definition'', PStr ''to put off''),
            (''DefinitionURL'', PStr ''http://m-w.com/procrastinate''),
            (''DefinitionSource'', PStr ''Merriam-Webster'')]"

definition google_body :: pyval where
  "google_body =
     PDict [(''items'', PList
       [PDict [(''link'', PStr ''http://pinterest.com/pin/1''), (''snippet'', PStr ''pin''),
               (''title'', PStr ''Pin'')],
        PDict [(''link'', PStr ''http://example.com/a.html''), (''snippet'', PStr ''hello''),
               (''title'', PStr ''A'')]])]"

definition w1 :: world where
  "w1 = w0\<lparr>http := (\<lambda>r. Inr (ok_response (Inr (if rparams r = [] then ddg_body ''Wikipedia''
                                                   else google_body)))),
            extract_finish := (\<lambda>i. Some 1)\<rparr>"


definition w3 :: world where
  "w3 = w0\<lparr>http := (\<lambda>r. Inr (ok_response (Inr (ddg_body ''Spam''))))\<rparr>"

text \<open>A provider that returns ten raw results.\<close>

definition ten_results :: "pyval list" where
  "ten_results = map (\<lambda>i. PDict [(''url'', PInt (int i))]) [0..<10]"

definition ten_func :: "pyval \<Rightarrow> pyval list io" where
  "ten_func term = ret ten_results"

text \<open>
  A seed message; a world in which every page is fetched and has one sentence; the message
  that \<open>search\<close> writes when no provider has a result; and the message it writes when
  the one Google result could not be enriched.
\<close>

definition seed0 :: pyval where
  "seed0 = PDict [(''word'', PStr ''procrastinate''), (''hashslug'', PStr ''procrastinate:6ad283'')]"



definition unenriched_message :: pyval where
  "unenriched_message =
     PDict [(''word'', PStr ''procrastinate''), (''hashslug'', PStr ''procrastinate:6ad283''),
            (''urls'', PList
               [PDict [(''url'', PStr ''http://example.com/a.html''),
                       (''search_provider'', PStr ''google''), (''date'', PNone),
                       (''summary'', PStr ''hello''), (''title'', PStr ''A'')]]),
            (''crawl_date'', PStr ''2015-11-20'')]"


section \<open>Properties of search.py\<close>

lemmas io_defs = ret_def raise_def emit_def lift_def bind_def seq_def sbind_def

subsection \<open>The string tests are the intended ones\<close>

lemma is_substring_iff: "is_substring d u \<longleftrightarrow> (\<exists>a b. u = a @ d @ b)"
proof (induction u)
  case Nil
  then show ?case by auto
next
  case (Cons c cs)
  have "take (length d) (c # cs) = d \<longleftrightarrow> (\<exists>b. c # cs = d @ b)"
    by (metis append_eq_conv_conj append_take_drop_id)
  moreover have "(\<exists>a b. c # cs = a @ d @ b) \<longleftrightarrow> (\<exists>b. c # cs = d @ b) \<or> (\<exists>a b. cs = a @ d @ b)"
  proof
    assume "\<exists>a b. c # cs = a @ d @ b"
    then obtain a b where ab: "c # cs = a @ d @ b" by blast
    show "(\<exists>b. c # cs = d @ b) \<or> (\<exists>a b. cs = a @ d @ b)"
    proof (cases a)
      case Nil
      with ab show ?thesis by auto
    next
      case (Cons x a')
      with ab have "cs = a' @ d @ b" by simp
      then show ?thesis by blast
    qed
  next
    assume "(\<exists>b. c # cs = d @ b) \<or> (\<exists>a b. cs = a @ d @ b)"
    then show "\<exists>a b. c # cs = a @ d @ b"
    proof
      assume "\<exists>b. c # cs = d @ b"
      then obtain b where "c # cs = [] @ d @ b" by auto
      then show ?thesis by blast
    next
      assume "\<exists>a b. cs = a @ d @ b"
      then obtain a b where "c # cs = (c # a) @ d @ b" by auto
      then show ?thesis by blast
    qed
  qed
  ultimately show ?case using Cons.IH by simp
qed

lemma endswith_iff: "endswith s e \<longleftrightarrow> (\<exists>a. s = a @ e)"
proof
  assume "endswith s e"
  then have "s = take (length s - length e) s @ e"
    unfolding endswith_def by (metis append_take_drop_id)
  then show "\<exists>a. s = a @ e" by blast
next
  assume "\<exists>a. s = a @ e"
  then show "endswith s e" unfolding endswith_def by auto
qed

subsection \<open>qualify_search_result\<close>




subsection \<open>search_all with an unsupported engine\<close>

text \<open>
  C4: when the configured \<open>search_engine\<close> is neither 'bing' nor 'google',
  \<open>search_all\<close> returns at once with the empty list; its whole trace is the
  opening log line and the error log line, so it sleeps for no poll, schedules no job
  and makes no HTTP call.
\<close>

theorem search_all_invalid_engine:
  "search_engine cfg \<noteq> ''bing'' \<Longrightarrow> search_engine cfg \<noteq> ''google'' \<Longrightarrow>
   search_all cfg w term =
     Some ([Log INFO (''Sarching for '{}'' @ apo) [term],
            Log ERROR ''Invalid search engine '{}' defined in config'' [PStr (search_engine cfg)]],
           [])"
  by (simp add: search_all_def)

theorem search_all_invalid_engine_witness:
  "search_all (cfg0\<lparr>search_engine := ''yahoo''\<rparr>) w0 (PStr ''procrastinate'') =
     Some ([Log INFO (''Sarching for '{}'' @ apo) [PStr ''procrastinate''],
            Log ERROR ''Invalid search engine '{}' defined in config'' [PStr ''yahoo'']],
           [])"
  using search_all_invalid_engine [of "cfg0\<lparr>search_engine := ''yahoo''\<rparr>" w0 "PStr ''procrastinate''"]
  by (simp add: cfg0_def)

subsection \<open>extract_wrapper\<close>

lemma extract_wrapper_raises:
  "py_getitem url_object ''url'' = Inr url \<Longrightarrow> page_structured w url term = Inl e \<Longrightarrow>
   extract_wrapper w url_object term =
     ([Log ERROR ''Failed to get page {} -- {}'' [url, traceback w e]], Inr url_object)"
  by (simp add: extract_wrapper_def io_defs)

subsection \<open>search_duckduckgo\<close>

lemma ddg_abstract_len: "(if py_truth a then sbind (ddg_abstract w term req) (\<lambda>x. Inr [x]) else Inr []) = Inr r1 \<Longrightarrow> length r1 \<le> 1"
  by (auto simp: sbind_def split: if_splits sum.splits)

lemma ddg_definition_len: "(if py_truth d then sbind (ddg_definition w term req) (\<lambda>x. Inr (r1 @ [x])) else Inr r1) = Inr r \<Longrightarrow> length r \<le> length r1 + 1"
  by (auto simp: sbind_def split: if_splits sum.splits)

lemma snd_bind_lift_Inr:
  "snd (bind (lift r) f) = Inr y \<longleftrightarrow> (\<exists>x. r = Inr x \<and> snd (f x) = Inr y)"
  by (cases r) (auto simp: bind_def lift_def split: prod.splits)

lemma snd_seq_emit: "snd (seq (emit ev) k) = snd k"
  by (simp add: seq_def bind_def emit_def split: prod.splits)

lemma snd_ret: "snd (ret x) = Inr x"
  by (simp add: ret_def)

lemma search_duckduckgo_len:
  assumes "snd (search_duckduckgo cfg w term) = Inr rs"
  shows "length rs \<le> 2"
proof (cases "sbind (http w (duckduckgo_request w term)) json")
  case (Inl e)
  with assms show ?thesis by (simp add: search_duckduckgo_def snd_seq_emit snd_ret)
next
  case (Inr req)
  with assms have body: "snd (bind (lift (py_getitem req ''AbstractSource'')) (\<lambda>source.
              if \<not> in_sources cfg source then ret []
              else
                bind (lift (py_get req ''Abstract'' PNone)) (\<lambda>a.
                bind (lift (if py_truth a then sbind (ddg_abstract w term req) (\<lambda>x. Inr [x])
                            else Inr [])) (\<lambda>result1.
                bind (lift (py_get req ''Definition'' PNone)) (\<lambda>d.
                bind (lift (if py_truth d
                            then sbind (ddg_definition w term req) (\<lambda>x. Inr (result1 @ [x]))
                            else Inr result1)) (\<lambda>result.
                seq (emit (Log INFO ''Searching DuckDuckGo for '{}' returned {} results''
                             [term, PInt (int (length result))]))
                  (ret result))))))) = Inr rs"
    by (simp add: search_duckduckgo_def snd_seq_emit)
  then obtain source where src: "py_getitem req ''AbstractSource'' = Inr source"
    and rest: "snd (if \<not> in_sources cfg source then ret []
              else
                bind (lift (py_get req ''Abstract'' PNone)) (\<lambda>a.
                bind (lift (if py_truth a then sbind (ddg_abstract w term req) (\<lambda>x. Inr [x])
                            else Inr [])) (\<lambda>result1.
                bind (lift (py_get req ''Definition'' PNone)) (\<lambda>d.
                bind (lift (if py_truth d
                            then sbind (ddg_definition w term req) (\<lambda>x. Inr (result1 @ [x]))
                            else Inr result1)) (\<lambda>result.
                seq (emit (Log INFO ''Searching DuckDuckGo for '{}' returned {} results''
                             [term, PInt (int (length result))]))
                  (ret result)))))) = Inr rs"
    unfolding snd_bind_lift_Inr by blast
  show ?thesis
  proof (cases "in_sources cfg source")
    case False
    with rest show ?thesis by (simp add: snd_ret)
  next
    case True
    with rest obtain a r1 d where
      r1: "(if py_truth a then sbind (ddg_abstract w term req) (\<lambda>x. Inr [x]) else Inr []) = Inr r1"
      and r: "(if py_truth d then sbind (ddg_definition w term req) (\<lambda>x. Inr (r1 @ [x])) else Inr r1) = Inr rs"
      by (simp only: if_False simp_thms snd_bind_lift_Inr snd_seq_emit snd_ret) (blast dest: sym)
    from ddg_abstract_len[OF r1] ddg_definition_len[OF r] show ?thesis by simp
  qed
qed


text \<open>
  C10: when the response has an \<open>AbstractSource\<close> that is not in the configured
  allow-list, \<open>search_duckduckgo\<close> returns the empty list (its only effect is the
  HTTP call), whatever the response holds as Definition; and whenever it returns, it
  returns at most two results.
\<close>

theorem search_duckduckgo_gate:
  "(http w (duckduckgo_request w term) = Inr r \<and> json r = Inr req
      \<and> py_getitem req ''AbstractSource'' = Inr source \<and> \<not> in_sources cfg source
     \<longrightarrow> search_duckduckgo cfg w term = ([Http (duckduckgo_request w term)], Inr []))
   \<and> (snd (search_duckduckgo cfg w term) = Inr rs \<longrightarrow> length rs \<le> 2)"
proof (intro conjI impI)
  assume "http w (duckduckgo_request w term) = Inr r \<and> json r = Inr req
      \<and> py_getitem req ''AbstractSource'' = Inr source \<and> \<not> in_sources cfg source"
  then show "search_duckduckgo cfg w term = ([Http (duckduckgo_request w term)], Inr [])"
    by (simp add: search_duckduckgo_def io_defs)
next
  assume "snd (search_duckduckgo cfg w term) = Inr rs"
  then show "length rs \<le> 2" by (rule search_duckduckgo_len)
qed

lemma ddg_w1: "\<exists>rs. snd (search_duckduckgo cfg0 w1 (PStr ''procrastinate'')) = Inr rs \<and> length rs = 2"
  by (simp add: search_duckduckgo_def io_defs w1_def w0_def cfg0_def ok_response_def ddg_body_def
        duckduckgo_request_def in_sources_def ddg_abstract_def ddg_definition_def)

theorem search_duckduckgo_gate_witness:
  "search_duckduckgo cfg0 w3 (PStr ''procrastinate'') =
     ([Http (duckduckgo_request w3 (PStr ''procrastinate''))], Inr [])
   \<and> (\<exists>rs. snd (search_duckduckgo cfg0 w1 (PStr ''procrastinate'')) = Inr rs \<and> length rs \<le> 2)"
proof -
  obtain rs where rs: "snd (search_duckduckgo cfg0 w1 (PStr ''procrastinate'')) = Inr rs"
    using ddg_w1 by blast
  have "\<not> in_sources cfg0 (PStr ''Spam'')" by (simp add: in_sources_def cfg0_def)
  moreover have "http w3 (duckduckgo_request w3 (PStr ''procrastinate'')) = Inr (ok_response (Inr (ddg_body ''Spam'')))"
    by (simp add: w3_def)
  moreover have "json (ok_response (Inr (ddg_body ''Spam''))) = Inr (ddg_body ''Spam'')"
    by (simp add: ok_response_def)
  moreover have "py_getitem (ddg_body ''Spam'') ''AbstractSource'' = Inr (PStr ''Spam'')"
    by (simp add: ddg_body_def)
  ultimately show ?thesis
    using search_duckduckgo_gate [of w3 "PStr ''procrastinate''" "ok_response (Inr (ddg_body ''Spam''))"
        "ddg_body ''Spam''" "PStr ''Spam''" cfg0 "[]"]
      search_duckduckgo_gate [of w1 "PStr ''procrastinate''" _ _ _ cfg0 rs] rs
    by blast
qed

subsection \<open>The polling loop\<close>

lemma wait_loop_spec:
  "wait_loop A m p tw = (p', tw') \<Longrightarrow>
     p \<le> p' \<and> tw' = tw + of_nat (p' - p) / 2 \<and> (A p' \<or> m \<le> tw')
     \<and> (\<forall>q. p \<le> q \<and> q < p' \<longrightarrow> \<not> A q \<and> tw + of_nat (q - p) / 2 < m)
     \<and> (p' = p \<or> tw' < m + 1/2)"
proof (induction A m p tw rule: wait_loop.induct)
  case (1 A m p tw)
  show ?case
  proof (cases "\<not> A p \<and> tw < m")
    case False
    with "1.prems" have "p' = p" "tw' = tw" by (auto simp: wait_loop.simps [of A m p tw])
    with False show ?thesis by auto
  next
    case True
    with "1.prems" have step: "wait_loop A m (Suc p) (tw + 1/2) = (p', tw')"
      by (simp add: wait_loop.simps [of A m p tw])
    from "1.IH" [OF True step] have
      le: "Suc p \<le> p'" and
      tw': "tw' = tw + 1/2 + of_nat (p' - Suc p) / 2" and
      stop: "A p' \<or> m \<le> tw'" and
      before: "\<forall>q. Suc p \<le> q \<and> q < p' \<longrightarrow> \<not> A q \<and> tw + 1/2 + of_nat (q - Suc p) / 2 < m" and
      bound: "p' = Suc p \<or> tw' < m + 1/2"
      by blast+
    have half: "tw + 1/2 + of_nat (n - Suc p) / 2 = tw + of_nat (n - p) / (2::rat)"
      if "Suc p \<le> n" for n
    proof -
      from that obtain k where n: "n = Suc p + k" using le_Suc_ex by blast
      have "n - Suc p = k" "n - p = Suc k" using n by simp_all
      then show ?thesis by (simp add: field_simps)
    qed
    have a: "p \<le> p'" using le by simp
    have b: "tw' = tw + of_nat (p' - p) / 2" by (simp only: tw' half [OF le])
    have c: "\<forall>q. p \<le> q \<and> q < p' \<longrightarrow> \<not> A q \<and> tw + of_nat (q - p) / 2 < m"
    proof (intro allI impI)
      fix q assume q: "p \<le> q \<and> q < p'"
      show "\<not> A q \<and> tw + of_nat (q - p) / 2 < m"
      proof (cases "q = p")
        case True
        with \<open>\<not> A p \<and> tw < m\<close> show ?thesis by simp
      next
        case False
        with q have q': "Suc p \<le> q" "q < p'" by simp_all
        with before have "\<not> A q \<and> tw + 1/2 + of_nat (q - Suc p) / 2 < m" by blast
        then show ?thesis unfolding half [OF q'(1)] .
      qed
    qed
    have d: "p' = p \<or> tw' < m + 1/2"
    proof (cases "p' = Suc p")
      case True
      with tw' have "tw' = tw + 1/2" by simp
      with \<open>\<not> A p \<and> tw < m\<close> show ?thesis by simp
    next
      case False
      with bound show ?thesis by simp
    qed
    from a b stop c d show ?thesis by blast
  qed
qed

lemma is_done_handle_at [simp]: "is_done (handle_at fin outcome t) = finished_by fin t"
  by (simp add: handle_at_def)

text \<open>
  C2: the polling loop of \<open>search_and_parse\<close> tracks half a second per poll and never
  tracks more than \<open>max_search_duration\<close> plus one polling interval. When the truth
  value of a job handle is its completion flag, the loop stops at the first poll at which
  all jobs are complete or the tracked time has reached \<open>max_search_duration\<close>: one
  of the two holds at the poll where it stops, and neither holds at any earlier poll.
\<close>

theorem join_jobs_stops:
  "join_jobs cfg w jobs = (p, tw) \<Longrightarrow>
     tw = of_nat p / 2
   \<and> tw < max 0 (max_search_duration cfg) + 1/2
   \<and> (handle_truth w = (\<lambda>d. d) \<longrightarrow>
        (list_all (\<lambda>job. is_done (job p)) jobs \<or> max_search_duration cfg \<le> tw)
        \<and> (\<forall>q<p. \<not> list_all (\<lambda>job. is_done (job q)) jobs
                   \<and> of_nat q / 2 < max_search_duration cfg))"
proof -
  assume "join_jobs cfg w jobs = (p, tw)"
  then have wl: "wait_loop (\<lambda>t. list_all (\<lambda>job. handle_truth w (is_done (job t))) jobs)
       (max_search_duration cfg) 0 0 = (p, tw)" by (simp add: join_jobs_def)
  note s = wait_loop_spec [OF wl]
  from s have tw: "tw = of_nat p / 2" by simp
  from s have "p = 0 \<or> tw < max_search_duration cfg + 1/2" by blast
  with tw have bound: "tw < max 0 (max_search_duration cfg) + 1/2" by (auto simp: max_def)
  have "handle_truth w = (\<lambda>d. d) \<longrightarrow>
        (list_all (\<lambda>job. is_done (job p)) jobs \<or> max_search_duration cfg \<le> tw)
        \<and> (\<forall>q<p. \<not> list_all (\<lambda>job. is_done (job q)) jobs
                   \<and> of_nat q / 2 < max_search_duration cfg)"
  proof
    assume h: "handle_truth w = (\<lambda>d. d)"
    from s h show "(list_all (\<lambda>job. is_done (job p)) jobs \<or> max_search_duration cfg \<le> tw)
        \<and> (\<forall>q<p. \<not> list_all (\<lambda>job. is_done (job q)) jobs
                   \<and> of_nat q / 2 < max_search_duration cfg)"
      by simp
  qed
  with tw bound show ?thesis by blast
qed

text \<open>
  The truth value of a handle is what \<open>all(jobs)\<close> tests. With handles that are always
  true the loop does not wait at all.
\<close>

lemma join_jobs_truthy_handles:
  "handle_truth w = (\<lambda>d. True) \<Longrightarrow> join_jobs cfg w jobs = (0, 0)"
  by (simp add: join_jobs_def wait_loop.simps list_all_iff)


theorem join_jobs_stops_witness:
  "join_jobs cfg0 w0 (extract_jobs w0 ten_results (PStr ''x'')) = (4, 2)
   \<and> (2::rat) < max 0 (max_search_duration cfg0) + 1/2
   \<and> max_search_duration cfg0 \<le> 2
   \<and> \<not> list_all (\<lambda>job. is_done (job 3)) (extract_jobs w0 ten_results (PStr ''x''))"
proof -
  have j: "join_jobs cfg0 w0 (extract_jobs w0 ten_results (PStr ''x'')) = (4, 2)"
    by code_simp
  have h: "handle_truth w0 = (\<lambda>d. d)" by (simp add: w0_def)
  have m: "max_search_duration cfg0 \<le> 2" by (simp add: cfg0_def)
  from join_jobs_stops [OF j] h m j show ?thesis by simp
qed

subsection \<open>search_and_parse\<close>

lemma length_extract_jobs [simp]: "length (extract_jobs w rs term) = length rs"
  by (simp add: extract_jobs_def)

text \<open>
  C1: when the provider returns N raw results, \<open>search_and_parse\<close> returns the values
  of exactly the jobs that are complete at the poll where polling stops, in order; with k
  jobs incomplete at that poll the list has N - k entries and the log line reports N - k
  results and k urls lost.
\<close>

theorem search_and_parse_completed:
  assumes "search_func term = (es, Inr rs)"
    and "jobs = extract_jobs w rs term"
    and "stop = fst (join_jobs cfg w jobs)"
    and "k = length (filter (\<lambda>job. \<not> is_done (job stop)) jobs)"
  shows "search_and_parse cfg w search_func term =
           (es @ map (\<lambda>url_object. Spawn ''extract_wrapper'' [url_object, term]) rs
               @ replicate stop Sleep
               @ [Log INFO ''Parsing URLs for '{}' yielded {} results, {} urls lost''
                    [term, PInt (int (length rs) - int k), PInt (int k)]],
            Inr (map (\<lambda>job. value_of (job stop)) (filter (\<lambda>job. is_done (job stop)) jobs)))
         \<and> length (map (\<lambda>job. value_of (job stop)) (filter (\<lambda>job. is_done (job stop)) jobs)) + k
           = length rs"
proof -
  have len: "length (filter (\<lambda>job. is_done (job stop)) jobs) + k = length rs"
    using sum_length_filter_compl [of "\<lambda>job. is_done (job stop)" jobs] assms(2,4) by simp
  then have "int (length (filter (\<lambda>job. is_done (job stop)) jobs)) = int (length rs) - int k"
    by linarith
  moreover have "int (length rs) - int (length (filter (\<lambda>job. is_done (job stop)) jobs)) = int k"
    using len by linarith
  ultimately show ?thesis
    using assms(1) len
    by (simp add: search_and_parse_def bind_def Let_def assms(2,3) [symmetric])
qed

theorem search_and_parse_completed_witness:
  "snd (search_and_parse cfg0 w0 ten_func (PStr ''x'')) = Inr (drop 3 ten_results)
   \<and> length (drop 3 ten_results) = 7
   \<and> last (fst (search_and_parse cfg0 w0 ten_func (PStr ''x''))) =
       Log INFO ''Parsing URLs for '{}' yielded {} results, {} urls lost''
         [PStr ''x'', PInt 7, PInt 3]"
proof -
  have a: "ten_func (PStr ''x'') = ([], Inr ten_results)" by (simp add: ten_func_def ret_def)
  have stop: "fst (join_jobs cfg0 w0 (extract_jobs w0 ten_results (PStr ''x''))) = 4"
    by code_simp
  have k: "length (filter (\<lambda>job. \<not> is_done (job 4)) (extract_jobs w0 ten_results (PStr ''x''))) = 3"
    by code_simp
  have vals: "map (\<lambda>job. value_of (job 4))
                (filter (\<lambda>job. is_done (job 4)) (extract_jobs w0 ten_results (PStr ''x'')))
              = drop 3 ten_results"
    by code_simp
  have n: "length ten_results = 10" by (simp add: ten_results_def)
  from search_and_parse_completed [where search_func = ten_func and w = w0 and cfg = cfg0, OF a refl refl refl]
  show ?thesis unfolding stop k vals by (simp add: n)
qed

subsection \<open>Enrichment errors and the result of search_and_parse\<close>

lemma join_jobs_extract:
  "join_jobs cfg w (extract_jobs w rs term) =
     wait_loop (\<lambda>t. list_all (\<lambda>i. handle_truth w (finished_by (extract_finish w i) t)) [0..<length rs])
       (max_search_duration cfg) 0 0"
  by (simp add: join_jobs_def extract_jobs_def list_all_iff)

lemma done_jobs_extract:
  "length (filter (\<lambda>job. is_done (job s)) (extract_jobs w rs term)) =
     length (filter (\<lambda>i. finished_by (extract_finish w i) s) [0..<length rs])"
  by (simp add: extract_jobs_def filter_map comp_def)

lemma search_and_parse_length:
  assumes "search_func term = (es, Inr rs)"
  shows "\<exists>out. snd (search_and_parse cfg w search_func term) = Inr out
           \<and> length out =
               length (filter (\<lambda>i. finished_by (extract_finish w i)
                                 (fst (wait_loop (\<lambda>t. list_all (\<lambda>i. handle_truth w
                                          (finished_by (extract_finish w i) t)) [0..<length rs])
                                        (max_search_duration cfg) 0 0)))
                         [0..<length rs])"
  using assms
  by (simp add: search_and_parse_def bind_def Let_def done_jobs_extract join_jobs_extract)

lemma search_and_parse_member:
  assumes sf: "search_func term = (es, Inr rs)"
    and i: "i < length rs"
    and fin: "finished_by (extract_finish w i) (fst (join_jobs cfg w (extract_jobs w rs term)))"
    and ew: "snd (extract_wrapper w (rs ! i) term) = Inr v"
  shows "\<exists>out. snd (search_and_parse cfg w search_func term) = Inr out \<and> v \<in> set out"
proof -
  define stop where "stop = fst (join_jobs cfg w (extract_jobs w rs term))"
  define job where "job = handle_at (extract_finish w i) (snd (extract_wrapper w (rs ! i) term))"
  have "job = extract_jobs w rs term ! i" using i by (simp add: job_def extract_jobs_def)
  then have mem: "job \<in> set (extract_jobs w rs term)" using i by (metis length_extract_jobs nth_mem)
  have d: "is_done (job stop)" using fin by (simp add: job_def stop_def)
  have v: "value_of (job stop) = v"
    using fin ew by (simp add: job_def stop_def handle_at_def value_of_def job_result_def)
  from mem d have "job \<in> set (filter (\<lambda>job. is_done (job stop)) (extract_jobs w rs term))" by simp
  then have "value_of (job stop) \<in> set (map (\<lambda>job. value_of (job stop))
                 (filter (\<lambda>job. is_done (job stop)) (extract_jobs w rs term)))"
    by (simp add: image_iff) blast
  with v sf show ?thesis
    by (simp add: search_and_parse_def bind_def Let_def stop_def)
qed

text \<open>
  C3: when the url object has a url and the page request for it raises,
  \<open>extract_wrapper\<close> logs the failure and returns the url object itself, with nothing
  merged into it; such a url object is in the output of \<open>search_and_parse\<close> when its
  job is finished at the poll where polling stops; and the number of results of
  \<open>search_and_parse\<close> is the same whatever the page requests do, so an enrichment error
  does not reduce it.
\<close>

theorem extract_wrapper_keeps_url_object:
  "(py_getitem url_object ''url'' = Inr url \<and> page_structured w url term = Inl e \<longrightarrow>
      extract_wrapper w url_object term =
        ([Log ERROR ''Failed to get page {} -- {}'' [url, traceback w e]], Inr url_object))
   \<and> (search_func term = (es, Inr rs) \<and> i < length rs
        \<and> py_getitem (rs ! i) ''url'' = Inr url' \<and> page_structured w url' term = Inl e'
        \<and> finished_by (extract_finish w i) (fst (join_jobs cfg w (extract_jobs w rs term)))
      \<longrightarrow> (\<exists>out. snd (search_and_parse cfg w search_func term) = Inr out \<and> rs ! i \<in> set out))
   \<and> (search_func term = (es, Inr rs) \<longrightarrow>
        (\<exists>out out'. snd (search_and_parse cfg w search_func term) = Inr out
           \<and> snd (search_and_parse cfg (w\<lparr>page_structured := p\<rparr>) search_func term) = Inr out'
           \<and> length out' = length out))"
proof (intro conjI impI)
  assume "py_getitem url_object ''url'' = Inr url \<and> page_structured w url term = Inl e"
  then show "extract_wrapper w url_object term =
        ([Log ERROR ''Failed to get page {} -- {}'' [url, traceback w e]], Inr url_object)"
    by (simp add: extract_wrapper_raises)
next
  assume a: "search_func term = (es, Inr rs) \<and> i < length rs
        \<and> py_getitem (rs ! i) ''url'' = Inr url' \<and> page_structured w url' term = Inl e'
        \<and> finished_by (extract_finish w i) (fst (join_jobs cfg w (extract_jobs w rs term)))"
  then have "snd (extract_wrapper w (rs ! i) term) = Inr (rs ! i)"
    by (simp add: extract_wrapper_raises)
  with a show "\<exists>out. snd (search_and_parse cfg w search_func term) = Inr out \<and> rs ! i \<in> set out"
    using search_and_parse_member by blast
next
  assume sf: "search_func term = (es, Inr rs)"
  from search_and_parse_length [where search_func = search_func and cfg = cfg and w = w, OF sf]
       search_and_parse_length [where search_func = search_func and cfg = cfg
         and w = "w\<lparr>page_structured := p\<rparr>", OF sf]
  show "\<exists>out out'. snd (search_and_parse cfg w search_func term) = Inr out
           \<and> snd (search_and_parse cfg (w\<lparr>page_structured := p\<rparr>) search_func term) = Inr out'
           \<and> length out' = length out"
    by auto
qed


theorem extract_wrapper_keeps_url_object_witness:
  "extract_wrapper w0 (PDict [(''url'', PInt 5)]) (PStr ''x'') =
     ([Log ERROR ''Failed to get page {} -- {}'' [PInt 5, PStr ''Traceback'']],
      Inr (PDict [(''url'', PInt 5)]))
   \<and> (\<exists>out. snd (search_and_parse cfg0 w0 ten_func (PStr ''x'')) = Inr out
         \<and> PDict [(''url'', PInt 5)] \<in> set out)
   \<and> (\<exists>out out'. snd (search_and_parse cfg0 w0 ten_func (PStr ''x'')) = Inr out
         \<and> snd (search_and_parse cfg0 (w0\<lparr>page_structured := \<lambda>u t. Inr (PDict [])\<rparr>) ten_func
                  (PStr ''x'')) = Inr out'
         \<and> length out' = length out)"
proof -
  have five: "ten_results ! 5 = PDict [(''url'', PInt 5)]" by code_simp
  have h1: "py_getitem (PDict [(''url'', PInt 5)]) ''url'' = Inr (PInt 5)
            \<and> page_structured w0 (PInt 5) (PStr ''x'') = Inl (Raised ''timeout'')"
    by (simp add: w0_def)
  have sf: "ten_func (PStr ''x'') = ([], Inr ten_results)" by (simp add: ten_func_def ret_def)
  have len: "5 < length ten_results" by (simp add: ten_results_def)
  have fin: "finished_by (extract_finish w0 5)
               (fst (join_jobs cfg0 w0 (extract_jobs w0 ten_results (PStr ''x''))))"
    by code_simp
  note t = extract_wrapper_keeps_url_object [where w = w0 and cfg = cfg0 and search_func = ten_func
      and url_object = "PDict [(''url'', PInt 5)]" and url = "PInt 5"
      and e = "Raised ''timeout''" and es = "[]" and rs = ten_results and i = 5
      and url' = "PInt 5" and e' = "Raised ''timeout''" and p = "\<lambda>u t. Inr (PDict [])"]
  have gi: "py_getitem (ten_results ! 5) ''url'' = Inr (PInt 5)" by (simp add: five)
  have pr: "page_structured w0 (PInt 5) (PStr ''x'') = Inl (Raised ''timeout'')"
    by (simp add: w0_def)
  note c1 = t [THEN conjunct1, THEN mp, OF h1]
  note c2 = t [THEN conjunct2, THEN conjunct1, THEN mp,
      OF conjI [OF sf conjI [OF len conjI [OF gi conjI [OF pr fin]]]]]
  note c3 = t [THEN conjunct2, THEN conjunct2, THEN mp, OF sf]
  from c2 have c2': "\<exists>out. snd (search_and_parse cfg0 w0 ten_func (PStr ''x'')) = Inr out
         \<and> PDict [(''url'', PInt 5)] \<in> set out"
    unfolding five .
  have tb: "traceback w0 (Raised ''timeout'') = PStr ''Traceback''" by (simp add: w0_def)
  from c1 [unfolded tb] c2' c3 show ?thesis by (intro conjI)
qed

subsection \<open>search_all with a supported engine\<close>

lemma join_loop_finish: "join_loop (\<lambda>t. a \<le> t \<and> b \<le> t) p = Some (max p (max a b))"
proof (induction "max a b - p" arbitrary: p)
  case 0
  then have "a \<le> p \<and> b \<le> p" by simp
  then show ?case by (subst join_loop.simps) (simp add: max_def)
next
  case (Suc n)
  define m where "m = max a b"
  from Suc.hyps(2) have lt: "p < m" by (simp add: m_def)
  then have not_yet: "\<not> (a \<le> p \<and> b \<le> p)" by (auto simp: m_def)
  from Suc.hyps(2) have "n = max a b - Suc p" by simp
  then have "join_loop (\<lambda>t. a \<le> t \<and> b \<le> t) (Suc p) = Some (max (Suc p) (max a b))"
    by (rule Suc.hyps(1))
  moreover from lt have "max (Suc p) m = max p m" by (simp add: max_def)
  ultimately have "join_loop (\<lambda>t. a \<le> t \<and> b \<le> t) (Suc p) = Some (max p (max a b))"
    by (simp add: m_def)
  with not_yet show ?case by (subst join_loop.simps) simp
qed

text \<open>
  C5: with 'bing' or 'google' configured and both jobs finishing, \<open>search_all\<close> returns
  the results of the DuckDuckGo job followed by the results of the primary-engine job (for
  a job that raised: none), each part in its order with the entries of false truth value
  removed; nothing else is removed, so an entry of both parts is there twice. The join
  ends at the first poll at which both jobs are done.
\<close>

theorem search_all_merge:
  assumes "search_engine cfg = ''bing'' \<and> engine = search_bing cfg w
           \<or> search_engine cfg = ''google'' \<and> engine = search_google cfg w"
    and "ddg_finish w = Some a" and "search_finish w = Some b"
    and "result = filter py_truth (or_empty (job_result (snd (search_duckduckgo cfg w term))))
                @ filter py_truth (or_empty (job_result (snd (search_and_parse cfg w engine term))))"
  shows "search_all cfg w term =
           Some ([Log INFO (''Sarching for '{}'' @ apo) [term],
                  Spawn ''search_duckduckgo'' [term],
                  Spawn ''search_and_parse'' [PStr (''search_'' @ search_engine cfg), term]]
                 @ replicate (max a b) Sleep
                 @ [Log INFO ''Searching URLs for '{}' yielded {} results''
                      [term, PInt (int (length result))]],
                 result)"
proof -
  have eng: "map_of [(''bing'', search_bing cfg w), (''google'', search_google cfg w)]
               (search_engine cfg) = Some engine"
    using assms(1) by auto
  have loop: "join_loop (\<lambda>t. is_done (handle_at (Some a) (snd (search_duckduckgo cfg w term)) t)
                          \<and> is_done (handle_at (Some b) (snd (search_and_parse cfg w engine term)) t)) 0
              = Some (max a b)"
  proof -
    have "(\<lambda>t. is_done (handle_at (Some a) (snd (search_duckduckgo cfg w term)) t)
              \<and> is_done (handle_at (Some b) (snd (search_and_parse cfg w engine term)) t))
          = (\<lambda>t. a \<le> t \<and> b \<le> t)"
      by (auto simp: handle_at_def finished_by_def fun_eq_iff)
    then show ?thesis by (simp only: join_loop_finish max_0L)
  qed
  have fa: "finished_by (Some a) (max a b)" and fb: "finished_by (Some b) (max a b)"
    by (simp_all add: finished_by_def)
  show ?thesis
    unfolding search_all_def eng assms(2,3) option.case Let_def loop
    by (simp add: handle_at_def fa fb assms(4))
qed


theorem search_all_merge_witness:
  "map (\<lambda>u. py_getitem u ''search_provider'')
     (snd (the (search_all cfg0 w1 (PStr ''procrastinate'')))) =
   [Inr (PStr ''duckduckgo''), Inr (PStr ''duckduckgo''), Inr (PStr ''google'')]"
proof -
  have e: "search_engine cfg0 = ''bing'' \<and> search_google cfg0 w1 = search_bing cfg0 w1
           \<or> search_engine cfg0 = ''google'' \<and> search_google cfg0 w1 = search_google cfg0 w1"
    by (simp add: cfg0_def)
  have a: "ddg_finish w1 = Some 1" and b: "search_finish w1 = Some 2"
    by (simp_all add: w1_def w0_def)
  have r: "map (\<lambda>u. py_getitem u ''search_provider'')
             (filter py_truth (or_empty (job_result (snd (search_duckduckgo cfg0 w1 (PStr ''procrastinate'')))))
              @ filter py_truth (or_empty (job_result (snd (search_and_parse cfg0 w1 (search_google cfg0 w1)
                                                             (PStr ''procrastinate''))))))
           = [Inr (PStr ''duckduckgo''), Inr (PStr ''duckduckgo''), Inr (PStr ''google'')]"
    by code_simp
  from search_all_merge [where cfg = cfg0 and w = w1 and engine = "search_google cfg0 w1",
      OF e a b refl] r
  show ?thesis by simp
qed

text \<open>
  The outer join has no deadline: \<open>search_all\<close> returns only if both jobs finish.
\<close>

lemma join_loop_Some_D:
  assumes "join_loop both_done p = Some y"
  shows "p \<le> y \<and> both_done y"
proof (rule join_loop.raw_induct [where P = "\<lambda>b p y. p \<le> y \<and> b y", OF _ assms], goal_cases)
  case (1 f both polls y)
  show ?case
  proof (cases "both polls")
    case True
    with 1(2) show ?thesis by simp
  next
    case False
    with 1(2) have "f both (Suc polls) = Some y" by simp
    from 1(1) [OF this] show ?thesis by simp
  qed
qed

lemma search_all_never_returns:
  assumes "search_engine cfg = ''bing'' \<or> search_engine cfg = ''google''"
    and "ddg_finish w = None \<or> search_finish w = None"
  shows "search_all cfg w term = None"
proof -
  obtain engine where eng: "map_of [(''bing'', search_bing cfg w), (''google'', search_google cfg w)]
               (search_engine cfg) = Some engine"
    using assms(1) by auto
  have "join_loop (\<lambda>t. is_done (handle_at (ddg_finish w) (snd (search_duckduckgo cfg w term)) t)
                          \<and> is_done (handle_at (search_finish w) (snd (search_and_parse cfg w engine term)) t)) 0
        = None"
  proof (rule ccontr)
    assume "join_loop (\<lambda>t. is_done (handle_at (ddg_finish w) (snd (search_duckduckgo cfg w term)) t)
                          \<and> is_done (handle_at (search_finish w) (snd (search_and_parse cfg w engine term)) t)) 0
        \<noteq> None"
    then obtain y where "join_loop (\<lambda>t. is_done (handle_at (ddg_finish w) (snd (search_duckduckgo cfg w term)) t)
                          \<and> is_done (handle_at (search_finish w) (snd (search_and_parse cfg w engine term)) t)) 0
        = Some y" by blast
    from join_loop_Some_D [OF this] assms(2) show False
      by (auto simp: finished_by_def)
  qed
  then show ?thesis unfolding search_all_def eng option.case Let_def by simp
qed

subsection \<open>The adapters when a provider fails\<close>

lemma search_google_request_raises:
  "http w (google_request cfg term) = Inl e \<Longrightarrow>
   search_google cfg w term = ([Http (google_request cfg term)], Inl UnboundLocalError)"
  by (simp add: search_google_def io_defs)

lemma search_bing_request_raises:
  "http w (bing_request cfg w term) = Inl e \<Longrightarrow>
   search_bing cfg w term = ([Http (bing_request cfg w term)], Inl UnboundLocalError)"
  by (simp add: search_bing_def io_defs)




section \<open>Properties of tasks.py\<close>

subsection \<open>Dicts and fields\<close>









lemma fields_kept_refl [simp]: "fields_kept X a a"
  by (simp add: fields_kept_def)

















subsection \<open>Traces and what they persist\<close>




lemma puts_Nil [simp]: "puts [] = []"
  by (simp add: puts_def map_filter_simps)

lemma puts_Cons [simp]:
  "puts (ev # es) = (case put_of ev of None \<Rightarrow> puts es | Some p \<Rightarrow> p # puts es)"
  by (simp add: puts_def map_filter_simps split: option.splits)

lemma puts_append [simp]: "puts (xs @ ys) = puts xs @ puts ys"
  by (induction xs) (auto split: option.splits)

lemma puts_replicate_Sleep [simp]: "puts (replicate n Sleep) = []"
  by (induction n) auto




subsection \<open>rate\<close>











subsection \<open>detect\<close>


lemma in_place_Inl: "f x = Inr y \<Longrightarrow> \<exists>z. in_place f x = Inr z"
  by (cases x) (auto simp: in_place_def)














subsection \<open>search\<close>








subsection \<open>The pipeline\<close>




subsection \<open>What a stage persists\<close>


lemma search_gives_unenriched:
  "search cfg0 (w1\<lparr>http := \<lambda>r. if rparams r = [] then Inl ConnectionError
                                else Inr (ok_response (Inr google_body))\<rparr>) seed0
   = Some (fst (the (search cfg0 (w1\<lparr>http := \<lambda>r. if rparams r = [] then Inl ConnectionError
                                else Inr (ok_response (Inr google_body))\<rparr>) seed0)),
           Inr unenriched_message)"
  by code_simp



end
